theory Spec2Isabelle
  imports Complex_Main "HOL-Library.FSet" "HOL-Library.Multiset"
begin

section \<open>Helpdesk ticket triage: the similarity-gated resolution engine\<close>

text \<open>
  A shallow embedding of the decision logic of the helpdesk backend
  (\<^verbatim>\<open>services/ticket_service.py\<close>, \<^verbatim>\<open>services/vector_service.py\<close>,
  \<^verbatim>\<open>services/ai_service_new.py\<close>, \<^verbatim>\<open>models/ticket_models.py\<close>).

  Conventions of the embedding.
  \<^item> A Python float is read as the real number it denotes, a binary64 value. Where the
    source computes with floats and the result can round (the conversion of a distance
    to a similarity), the model rounds the exact result to the nearest binary64 value,
    ties to even (\<open>round_double\<close>), as the hardware does; the floor 0.3 of the search
    is the double nearest to the decimal. A score rounded to three decimals is read as
    that decimal, and so are the constants 0.8, 0.9, 0.5 and 0.1: the doubles nearest to
    distinct decimals of three places are ordered as the decimals are. The ratio of two
    keyword counts is compared with 0.3 exactly, which gives the same answer for sets
    drawn from the vocabularies. NaN and the infinities are not values of the model.
  \<^item> A Python \<open>str\<close> is a \<open>string\<close> whose characters are the code points U+0000 to
    U+00FF; text with code points beyond that range is outside the model.
  \<^item> A Python dictionary with string keys is a map \<open>string \<rightharpoonup> 'v\<close>; the static escalation
    table is an association list read with \<open>map_of\<close>.
  \<^item> A call to an external collaborator (vector index, solution generator, clock) is an
    argument of the model: the function that the collaborator computes, with a raised
    exception as the left summand of its result.
  \<^item> A leading underscore of a Python name is dropped.
\<close>

subsection \<open>Escalation routing (\<^verbatim>\<open>TicketService.__init__\<close>, \<^verbatim>\<open>_get_escalation_contact\<close>)\<close>

definition escalation_contacts :: "(string \<times> (string \<times> string) list) list" where
  "escalation_contacts =
    [(''hardware'', [(''it'', ''hardware-support@company.com''),
                     (''default'', ''it-support@company.com'')]),
     (''software'', [(''it'', ''software-support@company.com''),
                     (''default'', ''it-support@company.com'')]),
     (''network'', [(''it'', ''network-admin@company.com''),
                    (''default'', ''network-support@company.com'')]),
     (''access'', [(''hr'', ''hr-access@company.com''),
                   (''finance'', ''finance-access@company.com''),
                   (''default'', ''security-admin@company.com'')]),
     (''other'', [(''default'', ''general-support@company.com'')])]"

text \<open>\<^verbatim>\<open>d.get(k, default)\<close> on a dictionary given by its items.\<close>

definition dict_get :: "('k \<times> 'v) list \<Rightarrow> 'k \<Rightarrow> 'v \<Rightarrow> 'v" where
  "dict_get d k dflt = (case map_of d k of Some v \<Rightarrow> v | None \<Rightarrow> dflt)"

text \<open>
  With two strings as arguments neither \<^verbatim>\<open>get\<close> can raise, so the \<^verbatim>\<open>except\<close> branch of
  the source (which returns the global default too) is never taken.
\<close>

definition get_escalation_contact :: "string \<Rightarrow> string \<Rightarrow> string" where
  "get_escalation_contact issue_type department =
    (let issue_contacts = dict_get escalation_contacts issue_type []
     in dict_get issue_contacts department
          (dict_get issue_contacts ''default'' ''support@company.com''))"

subsection \<open>Keyword overlap (\<^verbatim>\<open>_check_keyword_similarity\<close>, lines 222 to 233)\<close>

text \<open>
  Keyword sets are finite sets of strings. \<open>keyword_similarity\<close> is the expression
  \<^verbatim>\<open>len(intersection) / len(union) if union else 0\<close>; \<open>keyword_overlap\<close> is the part of
  \<^verbatim>\<open>_check_keyword_similarity\<close> that follows the two keyword extractions, with its early
  \<^verbatim>\<open>return False\<close> when either set is empty.
\<close>

definition keyword_similarity :: "string fset \<Rightarrow> string fset \<Rightarrow> real" where
  "keyword_similarity query_keywords reference_keywords =
    (let intersection = query_keywords |\<inter>| reference_keywords;
         union = query_keywords |\<union>| reference_keywords
     in if union \<noteq> {||} then real (fcard intersection) / real (fcard union) else 0)"

definition keyword_overlap :: "string fset \<Rightarrow> string fset \<Rightarrow> bool" where
  "keyword_overlap query_keywords reference_keywords =
    (if query_keywords = {||} \<or> reference_keywords = {||} then False
     else keyword_similarity query_keywords reference_keywords \<ge> 3 / 10
          \<and> fcard (query_keywords |\<inter>| reference_keywords) \<ge> 2)"

text \<open>The overlap scorer as the specification words it (section 4.2).\<close>

definition jaccard :: "string fset \<Rightarrow> string fset \<Rightarrow> real" where
  "jaccard A B =
    (if A = {||} \<and> B = {||} then 0
     else real (fcard (A |\<inter>| B)) / real (fcard (A |\<union>| B)))"

definition sufficientOverlap :: "string fset \<Rightarrow> string fset \<Rightarrow> bool" where
  "sufficientOverlap A B = (jaccard A B \<ge> 3 / 10 \<and> fcard (A |\<inter>| B) \<ge> 2)"

subsection \<open>Keyword extraction (\<^verbatim>\<open>extract_keywords\<close> inside \<^verbatim>\<open>_check_keyword_similarity\<close>)\<close>

text \<open>
  \<^verbatim>\<open>text.lower()\<close> on the code points up to U+00FF: the capital letters A to Z, and the
  accented capitals U+00C0 to U+00DE except the multiplication sign U+00D7, move up by 32.
\<close>

definition py_lower_char :: "char \<Rightarrow> char" where
  "py_lower_char c =
    (let n = (of_char c :: nat)
     in if (65 \<le> n \<and> n \<le> 90) \<or> (192 \<le> n \<and> n \<le> 214) \<or> (216 \<le> n \<and> n \<le> 222)
        then char_of (n + 32) else c)"

definition py_lower :: "string \<Rightarrow> string" where
  "py_lower s = map py_lower_char s"

text \<open>
  The classes \<^verbatim>\<open>\w\<close> and \<^verbatim>\<open>\s\<close> of a Python 3 string pattern, on the code points up to
  U+00FF: \<^verbatim>\<open>\w\<close> is the underscore and every alphanumeric character (digits, letters,
  and in the upper half the ordinal indicators, superscript digits, the micro sign, the
  vulgar fractions and the accented letters); \<^verbatim>\<open>\s\<close> is the white space of
  \<^verbatim>\<open>str.isspace\<close>.
\<close>

definition is_word_char :: "char \<Rightarrow> bool" where
  "is_word_char c =
    (let n = (of_char c :: nat)
     in (48 \<le> n \<and> n \<le> 57) \<or> (65 \<le> n \<and> n \<le> 90) \<or> n = 95 \<or> (97 \<le> n \<and> n \<le> 122)
        \<or> n = 170 \<or> n = 178 \<or> n = 179 \<or> n = 181 \<or> n = 185 \<or> n = 186
        \<or> (188 \<le> n \<and> n \<le> 190) \<or> (192 \<le> n \<and> n \<le> 214) \<or> (216 \<le> n \<and> n \<le> 246)
        \<or> 248 \<le> n)"

definition is_space_char :: "char \<Rightarrow> bool" where
  "is_space_char c =
    (let n = (of_char c :: nat)
     in (9 \<le> n \<and> n \<le> 13) \<or> (28 \<le> n \<and> n \<le> 32) \<or> n = 133 \<or> n = 160)"

text \<open>\<^verbatim>\<open>re.sub(r'[^\w\s]', ' ', text.lower())\<close>.\<close>

definition clean_text :: "string \<Rightarrow> string" where
  "clean_text s =
    map (\<lambda>c. if is_word_char c \<or> is_space_char c then c else CHR '' '') (py_lower s)"

text \<open>\<^verbatim>\<open>keyword in text\<close>: the keyword occurs as a contiguous piece of the text.\<close>

fun starts_with :: "string \<Rightarrow> string \<Rightarrow> bool" where
  "starts_with [] t = True"
| "starts_with (k # ks) [] = False"
| "starts_with (k # ks) (c # cs) = (k = c \<and> starts_with ks cs)"

fun str_contains :: "string \<Rightarrow> string \<Rightarrow> bool" where
  "str_contains k [] = (k = [])"
| "str_contains k (c # cs) = (starts_with k (c # cs) \<or> str_contains k cs)"

text \<open>
  The two vocabularies. They are Python sets in the source; the order in which the loops
  visit them does not matter, since the loops only add to a set.
\<close>

definition tech_keywords :: "string list" where
  "tech_keywords =
    [''vpn'', ''email'', ''internet'', ''network'', ''wifi'', ''browser'', ''application'', ''app'',
     ''software'', ''hardware'', ''printer'', ''laptop'', ''computer'', ''phone'', ''smartphone'',
     ''password'', ''login'', ''access'', ''permission'', ''file'', ''folder'', ''drive'', ''database'',
     ''server'', ''system'', ''windows'', ''macos'', ''linux'', ''chrome'', ''firefox'', ''outlook'',
     ''teams'', ''zoom'', ''slack'', ''office'', ''excel'', ''word'', ''powerpoint'', ''pdf'']"

definition action_keywords :: "string list" where
  "action_keywords =
    [''crash'', ''crashing'', ''crashed'', ''freeze'', ''freezing'', ''frozen'', ''hang'', ''hanging'',
     ''slow'', ''fast'', ''loading'', ''opening'', ''closing'', ''starting'', ''stopping'', ''working'',
     ''not working'', ''broken'', ''error'', ''issue'', ''problem'', ''trouble'', ''failing'', ''failed'',
     ''connecting'', ''disconnecting'', ''installing'', ''uninstalling'', ''updating'', ''downloading'']"

definition extract_keywords :: "string \<Rightarrow> string fset" where
  "extract_keywords s =
    (let t = clean_text s
     in fset_of_list (filter (\<lambda>keyword. str_contains keyword t) tech_keywords)
        |\<union>| fset_of_list (filter (\<lambda>keyword. str_contains keyword t) action_keywords))"

definition check_keyword_similarity :: "string \<Rightarrow> string \<Rightarrow> bool" where
  "check_keyword_similarity query reference =
    keyword_overlap (extract_keywords query) (extract_keywords reference)"

subsection \<open>Ticket models (\<^verbatim>\<open>models/ticket_models.py\<close>)\<close>

datatype IssueType = HARDWARE | SOFTWARE | NETWORK | ACCESS | OTHER

fun IssueType_value :: "IssueType \<Rightarrow> string" where
  "IssueType_value HARDWARE = ''hardware''"
| "IssueType_value SOFTWARE = ''software''"
| "IssueType_value NETWORK = ''network''"
| "IssueType_value ACCESS = ''access''"
| "IssueType_value OTHER = ''other''"

datatype UrgencyLevel = LOW | MEDIUM | HIGH | CRITICAL

fun UrgencyLevel_value :: "UrgencyLevel \<Rightarrow> string" where
  "UrgencyLevel_value LOW = ''low''"
| "UrgencyLevel_value MEDIUM = ''medium''"
| "UrgencyLevel_value HIGH = ''high''"
| "UrgencyLevel_value CRITICAL = ''critical''"

datatype Department = IT | HR | FINANCE | MARKETING | OPERATIONS | SUPPORT | OTHER_DEPARTMENT

fun Department_value :: "Department \<Rightarrow> string" where
  "Department_value IT = ''it''"
| "Department_value HR = ''hr''"
| "Department_value FINANCE = ''finance''"
| "Department_value MARKETING = ''marketing''"
| "Department_value OPERATIONS = ''operations''"
| "Department_value SUPPORT = ''support''"
| "Department_value OTHER_DEPARTMENT = ''other''"

text \<open>
  The values a dictionary of type \<^verbatim>\<open>Dict[str, Any]\<close> holds here: what a JSON document or
  an index metadata entry can carry.
\<close>

datatype pyval =
    PNone
  | PBool bool
  | PInt int
  | PFloat real
  | PStr string
  | PList "pyval list"
  | PDict "(string \<times> pyval) list"

type_synonym pydict = "string \<rightharpoonup> pyval"

datatype exn =
  KeyError | ValueError | TypeError | IndexError | AttributeError | ValidationError | ExternalError

text \<open>
  The exceptions are those that \<^verbatim>\<open>except Exception\<close> catches; \<open>ExternalError\<close> stands for
  any failure of a collaborator.

  \<^verbatim>\<open>IssueType(x)\<close> and \<^verbatim>\<open>UrgencyLevel(x)\<close>: the member with that value, else a ValueError.
\<close>

definition IssueType_call :: "pyval \<Rightarrow> exn + IssueType" where
  "IssueType_call x =
    (case x of
       PStr s \<Rightarrow>
         (case filter (\<lambda>e. IssueType_value e = s) [HARDWARE, SOFTWARE, NETWORK, ACCESS, OTHER] of
            e # _ \<Rightarrow> Inr e
          | [] \<Rightarrow> Inl ValueError)
     | _ \<Rightarrow> Inl ValueError)"

definition UrgencyLevel_call :: "pyval \<Rightarrow> exn + UrgencyLevel" where
  "UrgencyLevel_call x =
    (case x of
       PStr s \<Rightarrow>
         (case filter (\<lambda>e. UrgencyLevel_value e = s) [LOW, MEDIUM, HIGH, CRITICAL] of
            e # _ \<Rightarrow> Inr e
          | [] \<Rightarrow> Inl ValueError)
     | _ \<Rightarrow> Inl ValueError)"

record TicketRequest =
  name :: string
  department :: Department
  issue_description :: string

text \<open>The type parameter is the type of a parsed date (\<^verbatim>\<open>datetime\<close>).\<close>

record 'd SimilarTicket =
  id' :: string
  description :: string
  resolution :: string
  issue_type :: IssueType
  urgency :: UrgencyLevel
  similarity_score :: real
  resolved_date :: 'd

record TicketMetadata =
  ticket_id :: string
  user_name :: string
  department :: string
  issue_type :: string
  urgency :: string
  resolution :: string
  resolved_date :: string
  resolver :: string

record 'd TicketResponse =
  ticket_id :: string
  user_name :: string
  department :: Department
  issue_description :: string
  issue_type :: IssueType
  urgency :: UrgencyLevel
  ai_generated_solution :: string
  similar_tickets :: "'d SimilarTicket list"
  escalation_contact :: "string option"
  processing_time_ms :: int
  confidence_score :: real
  response_source :: string
  source_ticket_id :: "string option"

text \<open>
  Field validation of the models (pydantic, default mode). A \<^verbatim>\<open>str\<close> field takes a string
  only; an \<^verbatim>\<open>Optional[str]\<close> field takes \<^verbatim>\<open>None\<close> or a string; a \<^verbatim>\<open>float\<close> field takes a
  float, an integer or a boolean by its numeric value, and a string that Python's
  \<^verbatim>\<open>float\<close> parses (the parser is an argument).
\<close>

definition str_field :: "pyval \<Rightarrow> exn + string" where
  "str_field x = (case x of PStr s \<Rightarrow> Inr s | _ \<Rightarrow> Inl ValidationError)"

definition optional_str_field :: "pyval option \<Rightarrow> exn + string option" where
  "optional_str_field x =
    (case x of
       None \<Rightarrow> Inr None
     | Some PNone \<Rightarrow> Inr None
     | Some (PStr s) \<Rightarrow> Inr (Some s)
     | Some _ \<Rightarrow> Inl ValidationError)"

definition float_field :: "(string \<Rightarrow> real option) \<Rightarrow> pyval \<Rightarrow> exn + real" where
  "float_field parse_float x =
    (case x of
       PFloat r \<Rightarrow> Inr r
     | PInt n \<Rightarrow> Inr (of_int n)
     | PBool b \<Rightarrow> Inr (if b then 1 else 0)
     | PStr s \<Rightarrow> (case parse_float s of Some r \<Rightarrow> Inr r | None \<Rightarrow> Inl ValidationError)
     | _ \<Rightarrow> Inl ValidationError)"

subsection \<open>Similarity search (\<^verbatim>\<open>VectorService.search_similar\<close>)\<close>

text \<open>
  Rounding to the nearest integer, a tie going to the even neighbour: the rounding of
  binary64 arithmetic and of \<^verbatim>\<open>round\<close>.
\<close>

definition round_half_even :: "real \<Rightarrow> int" where
  "round_half_even x =
    (let f = \<lfloor>x\<rfloor>; r = x - of_int f
     in if r < 1 / 2 then f else if 1 / 2 < r then f + 1 else if even f then f else f + 1)"

text \<open>
  The binary exponent of a positive real: \<open>2 powi binade x \<le> x < 2 powi (binade x + 1)\<close>.
\<close>

function binade :: "real \<Rightarrow> int" where
  "binade x =
    (if x \<le> 0 then 0
     else if 2 \<le> x then binade (x / 2) + 1
     else if x < 1 then binade (x * 2) - 1
     else 0)"
  by pat_completeness auto
termination
proof (relation "measure (\<lambda>x. nat \<bar>\<lfloor>log 2 x\<rfloor>\<bar>)")
  show "wf (measure (\<lambda>x. nat \<bar>\<lfloor>log 2 x\<rfloor>\<bar>))" by simp
next
  fix x :: real
  assume "\<not> x \<le> 0" and big: "2 \<le> x"
  then have pos: "0 < x" by simp
  define n where "n = \<lfloor>log 2 x\<rfloor>"
  have "1 \<le> log 2 x"
    using big pos by (simp add: le_log_iff)
  then have large: "1 \<le> n"
    by (simp add: n_def le_floor_iff)
  have step: "\<lfloor>log 2 (x / 2)\<rfloor> = n - 1"
    using pos by (simp add: log_divide n_def)
  have "nat \<bar>n - 1\<bar> < nat \<bar>n\<bar>"
    using large by linarith
  then show "(x / 2, x) \<in> measure (\<lambda>x. nat \<bar>\<lfloor>log 2 x\<rfloor>\<bar>)"
    unfolding in_measure step unfolding n_def .
next
  fix x :: real
  assume "\<not> x \<le> 0" and "\<not> 2 \<le> x" and small: "x < 1"
  then have pos: "0 < x" by simp
  define n where "n = \<lfloor>log 2 x\<rfloor>"
  have "log 2 x < 0"
    using small pos by simp
  then have neg: "n < 0"
    by (simp add: n_def floor_less_iff)
  have step: "\<lfloor>log 2 (x * 2)\<rfloor> = n + 1"
    using pos by (simp add: log_mult n_def)
  have "nat \<bar>n + 1\<bar> < nat \<bar>n\<bar>"
    using neg by linarith
  then show "(x * 2, x) \<in> measure (\<lambda>x. nat \<bar>\<lfloor>log 2 x\<rfloor>\<bar>)"
    unfolding in_measure step unfolding n_def .
qed

declare binade.simps [simp del]

text \<open>
  The binary64 value nearest to a real, ties to even: 53 significant bits in the normal
  range, multiples of \<open>2 powi (- 1074)\<close> below it. Overflow is not modelled; the
  similarity of a finite distance cannot overflow.
\<close>

definition round_double :: "real \<Rightarrow> real" where
  "round_double x =
    (if x = 0 then 0
     else let e = max (binade \<bar>x\<bar>) (- 1022); ulp = 2 powi (e - 52)
          in of_int (round_half_even (x / ulp)) * ulp)"

text \<open>
  The conversion of an index distance (line 226), \<^verbatim>\<open>max(0, 1 - (distance / 2))\<close>, as the
  interpreter computes it on doubles: the quotient and the difference are each rounded
  to the nearest double.
\<close>

definition similarity :: "real \<Rightarrow> real" where
  "similarity distance = max 0 (round_double (1 - round_double (distance / 2)))"

text \<open>
  \<^verbatim>\<open>round(x, 3)\<close>: the multiple of one thousandth nearest to the exact value of the
  double \<open>x\<close>, a tie (which only a binary fraction can meet) going to the even
  neighbour. The float that Python returns is the double nearest to this decimal. A
  stored score is kept as the decimal, and so are the thresholds 0.8 and 0.9 that the gate
  compares it with: rounding to the nearest double is monotone and maps different
  thousandths to different doubles, so the two comparisons agree.
\<close>

definition py_round3 :: "real \<Rightarrow> real" where
  "py_round3 x = of_int (round_half_even (x * 1000)) / 1000"

text \<open>\<^verbatim>\<open>str(i)\<close> for the default id \<^verbatim>\<open>f"unknown_{i}"\<close>.\<close>

fun str_of_nat :: "nat \<Rightarrow> string" where
  "str_of_nat n =
    (if n < 10 then [char_of (48 + n)]
     else str_of_nat (n div 10) @ [char_of (48 + n mod 10)])"

definition meta_get :: "pydict \<Rightarrow> string \<Rightarrow> pyval \<Rightarrow> pyval" where
  "meta_get metadata k dflt = (case metadata k of Some v \<Rightarrow> v | None \<Rightarrow> dflt)"

text \<open>
  The construction of one \<^verbatim>\<open>SimilarTicket\<close> (lines 232 to 242): \<open>None\<close> when any part of
  it raises (an unknown issue type or urgency, a date that does not parse, a field of the
  wrong type); the loop then logs a warning and goes on to the next hit.
  \<open>fromisoformat\<close> is \<^verbatim>\<open>datetime.fromisoformat\<close>.
\<close>

definition make_similar_ticket ::
  "(string \<Rightarrow> 'd option) \<Rightarrow> nat \<Rightarrow> string \<Rightarrow> pydict \<Rightarrow> real \<Rightarrow> 'd SimilarTicket option" where
  "make_similar_ticket fromisoformat i doc metadata score =
    (case str_field (meta_get metadata ''ticket_id'' (PStr (''unknown_'' @ str_of_nat i))) of
       Inl e \<Rightarrow> None
     | Inr tid \<Rightarrow>
    (case str_field (meta_get metadata ''resolution'' (PStr ''Resolution not available'')) of
       Inl e \<Rightarrow> None
     | Inr res \<Rightarrow>
    (case IssueType_call (meta_get metadata ''issue_type'' (PStr ''other'')) of
       Inl e \<Rightarrow> None
     | Inr ity \<Rightarrow>
    (case UrgencyLevel_call (meta_get metadata ''urgency'' (PStr ''low'')) of
       Inl e \<Rightarrow> None
     | Inr urg \<Rightarrow>
    (case meta_get metadata ''resolved_date'' (PStr ''2024-01-01'') of
       PStr s \<Rightarrow>
         (case fromisoformat s of
            None \<Rightarrow> None
          | Some date \<Rightarrow>
              Some \<lparr> id' = tid, description = doc, SimilarTicket.resolution = res,
                     SimilarTicket.issue_type = ity, SimilarTicket.urgency = urg,
                     similarity_score = py_round3 score,
                     SimilarTicket.resolved_date = date \<rparr>)
     | _ \<Rightarrow> None)))))"

text \<open>
  The loop over the zipped hits (lines 218 to 246); \<open>i\<close> is the index \<^verbatim>\<open>enumerate\<close> gives.
\<close>

fun scan_hits ::
  "(string \<Rightarrow> 'd option) \<Rightarrow> real \<Rightarrow> nat \<Rightarrow> (string \<times> pydict \<times> real) list \<Rightarrow> 'd SimilarTicket list" where
  "scan_hits fromisoformat min_similarity i [] = []"
| "scan_hits fromisoformat min_similarity i ((doc, metadata, distance) # rest) =
    (let similarity_score = similarity distance
     in if similarity_score \<ge> min_similarity
        then (case make_similar_ticket fromisoformat i doc metadata similarity_score of
                Some similar_ticket \<Rightarrow>
                  similar_ticket # scan_hits fromisoformat min_similarity (Suc i) rest
              | None \<Rightarrow> scan_hits fromisoformat min_similarity (Suc i) rest)
        else scan_hits fromisoformat min_similarity (Suc i) rest)"

text \<open>
  \<^verbatim>\<open>similar_tickets.sort(key=lambda x: x.similarity_score, reverse=True)\<close>: a stable sort,
  so tickets of equal score keep the order of the index.
\<close>

definition sort_by_score :: "'d SimilarTicket list \<Rightarrow> 'd SimilarTicket list" where
  "sort_by_score ts = sort_key (\<lambda>x. - similarity_score x) ts"

text \<open>
  What \<^verbatim>\<open>collection.query\<close> returns for the one query embedding: a list per query of
  documents, of metadata dictionaries and of distances.
\<close>

record query_results =
  documents :: "string list list"
  metadatas :: "pydict list list"
  distances :: "real list list"

text \<open>
  \<open>collection_query query limit\<close> stands for the embedding of the query followed by
  \<^verbatim>\<open>collection.query\<close>; \<open>Inl\<close> is an exception raised by either. Every exception inside
  \<^verbatim>\<open>search_similar\<close> ends in its \<^verbatim>\<open>except\<close> clause, which returns the empty list.
\<close>

definition search_similar ::
  "(string \<Rightarrow> 'd option) \<Rightarrow> (string \<Rightarrow> nat \<Rightarrow> exn + query_results)
    \<Rightarrow> string \<Rightarrow> nat \<Rightarrow> real \<Rightarrow> 'd SimilarTicket list" where
  "search_similar fromisoformat collection_query query limit min_similarity =
    (case collection_query query limit of
       Inl e \<Rightarrow> []
     | Inr results \<Rightarrow>
         (case documents results of
            [] \<Rightarrow> []
          | docs # _ \<Rightarrow>
              if docs = [] then []
              else (case (metadatas results, distances results) of
                      (metas # _, dists # _) \<Rightarrow>
                        sort_by_score
                          (scan_hits fromisoformat min_similarity 0 (zip docs (zip metas dists)))
                    | _ \<Rightarrow> [])))"

text \<open>
  The hits that the loop of \<^verbatim>\<open>search_similar\<close> visits: the three lists of the first
  query zipped, and none when the index raised or a list is missing. \<open>candidate_of\<close> is
  the body of the loop for the hit at index \<open>i\<close>.
\<close>

definition hits_of :: "exn + query_results \<Rightarrow> (string \<times> pydict \<times> real) list" where
  "hits_of outcome =
    (case outcome of
       Inl e \<Rightarrow> []
     | Inr results \<Rightarrow>
         (case (documents results, metadatas results, distances results) of
            (docs # _, metas # _, dists # _) \<Rightarrow> zip docs (zip metas dists)
          | _ \<Rightarrow> []))"


subsection \<open>Validation of the generator's analysis (\<^verbatim>\<open>AIService._validate_analysis\<close>)\<close>

definition valid_issue_types :: "string list" where
  "valid_issue_types = map IssueType_value [HARDWARE, SOFTWARE, NETWORK, ACCESS, OTHER]"

definition valid_urgencies :: "string list" where
  "valid_urgencies = map UrgencyLevel_value [LOW, MEDIUM, HIGH, CRITICAL]"

text \<open>
  \<^verbatim>\<open>analysis.get(k) in xs\<close> for a list of strings: \<^verbatim>\<open>get\<close> gives \<^verbatim>\<open>None\<close> for a missing key,
  and only a string equals a string.
\<close>

definition in_strings :: "pyval option \<Rightarrow> string list \<Rightarrow> bool" where
  "in_strings x xs = (case x of Some (PStr s) \<Rightarrow> s \<in> set xs | _ \<Rightarrow> False)"

text \<open>\<^verbatim>\<open>isinstance(x, (int, float))\<close> (a \<^verbatim>\<open>bool\<close> is an \<^verbatim>\<open>int\<close>) and the number it is.\<close>

fun is_number :: "pyval \<Rightarrow> bool" where
  "is_number (PBool b) = True"
| "is_number (PInt n) = True"
| "is_number (PFloat r) = True"
| "is_number v = False"

fun num_value :: "pyval \<Rightarrow> real" where
  "num_value (PBool b) = (if b then 1 else 0)"
| "num_value (PInt n) = of_int n"
| "num_value (PFloat r) = r"
| "num_value v = 0"

text \<open>The truth value of \<^verbatim>\<open>analysis[field]\<close> in \<^verbatim>\<open>not analysis[field]\<close>.\<close>

fun truthy :: "pyval \<Rightarrow> bool" where
  "truthy PNone = False"
| "truthy (PBool b) = b"
| "truthy (PInt n) = (n \<noteq> 0)"
| "truthy (PFloat r) = (r \<noteq> 0)"
| "truthy (PStr s) = (s \<noteq> [])"
| "truthy (PList xs) = (xs \<noteq> [])"
| "truthy (PDict kvs) = (kvs \<noteq> [])"

definition required_fields :: "string list" where
  "required_fields =
    [''solution'', ''reasoning'', ''estimated_resolution_time'', ''required_skills'',
     ''escalation_criteria'']"

definition ensure_field :: "string \<Rightarrow> pydict \<Rightarrow> pydict" where
  "ensure_field field analysis =
    (if (case analysis field of None \<Rightarrow> True | Some v \<Rightarrow> \<not> truthy v)
     then analysis(field \<mapsto> PStr ''Information not available'') else analysis)"

definition validate_analysis :: "pydict \<Rightarrow> pydict" where
  "validate_analysis analysis =
    (let analysis1 =
           (if \<not> in_strings (analysis ''issue_type'') valid_issue_types
            then analysis(''issue_type'' \<mapsto> PStr ''other'') else analysis);
         analysis2 =
           (if \<not> in_strings (analysis1 ''urgency'') valid_urgencies
            then analysis1(''urgency'' \<mapsto> PStr ''medium'') else analysis1);
         confidence =
           (case analysis2 ''confidence_score'' of Some v \<Rightarrow> v | None \<Rightarrow> PFloat (1 / 2));
         analysis3 =
           (if \<not> is_number confidence \<or> num_value confidence < 0 \<or> num_value confidence > 1
            then analysis2(''confidence_score'' \<mapsto> PFloat (1 / 2)) else analysis2)
     in fold ensure_field required_fields analysis3)"

text \<open>The confidence handling as the specification words it in section 4.4: a clamp.\<close>

definition clamp01 :: "real \<Rightarrow> real" where
  "clamp01 x = max 0 (min 1 x)"

subsection \<open>The generator (\<^verbatim>\<open>AIService.analyze_ticket\<close> of \<^verbatim>\<open>ai_service_new.py\<close>)\<close>

text \<open>
  \<open>openai_call\<close> stands for the formatting of the prompt and the model call, \<open>Inl\<close> an
  exception of either; \<open>json_loads\<close> for \<^verbatim>\<open>json.loads(response.strip())\<close>, \<open>None\<close> a
  \<^verbatim>\<open>JSONDecodeError\<close>. A JSON object is the list of its members in document order, the
  last of two equal keys winning. A parsed value that is no object has no \<^verbatim>\<open>get\<close>: the
  AttributeError ends, like every other exception, in the outer \<^verbatim>\<open>except\<close> clause.
\<close>

definition unparsable_analysis :: "string \<Rightarrow> pydict" where
  "unparsable_analysis issue =
    [''issue_type'' \<mapsto> PStr ''other'',
     ''urgency'' \<mapsto> PStr ''medium'',
     ''solution'' \<mapsto> PStr (''Based on the description '' @ [CHR 39] @ issue @ [CHR 39]
        @ '', I recommend contacting your IT support team for assistance. This appears to be a technical issue that requires further investigation.''),
     ''confidence_score'' \<mapsto> PFloat (1 / 2),
     ''reasoning'' \<mapsto> PStr ''Unable to parse detailed analysis'',
     ''estimated_resolution_time'' \<mapsto> PStr ''30 minutes'',
     ''required_skills'' \<mapsto> PStr ''intermediate'',
     ''escalation_criteria'' \<mapsto> PStr ''If issue persists after 30 minutes'']"

definition unavailable_analysis :: "int \<Rightarrow> pydict" where
  "unavailable_analysis processing_time =
    [''issue_type'' \<mapsto> PStr ''other'',
     ''urgency'' \<mapsto> PStr ''medium'',
     ''solution'' \<mapsto> PStr ''We're experiencing technical difficulties with our AI analysis. Please contact IT support directly for assistance with your issue.'',
     ''confidence_score'' \<mapsto> PFloat (1 / 10),
     ''reasoning'' \<mapsto> PStr ''AI service unavailable'',
     ''estimated_resolution_time'' \<mapsto> PStr ''Unknown'',
     ''required_skills'' \<mapsto> PStr ''N/A'',
     ''escalation_criteria'' \<mapsto> PStr ''Immediate'',
     ''processing_time_ms'' \<mapsto> PInt processing_time]"

definition analyze_ticket ::
  "(string \<Rightarrow> string \<Rightarrow> string \<Rightarrow> exn + string) \<Rightarrow> (string \<Rightarrow> pyval option) \<Rightarrow> int
    \<Rightarrow> string \<Rightarrow> string \<Rightarrow> string \<Rightarrow> pydict" where
  "analyze_ticket openai_call json_loads processing_time uname dept issue =
    (case openai_call uname dept issue of
       Inl e \<Rightarrow> unavailable_analysis processing_time
     | Inr response \<Rightarrow>
         (case json_loads response of
            None \<Rightarrow>
              (validate_analysis (unparsable_analysis issue))
                (''processing_time_ms'' \<mapsto> PInt processing_time)
          | Some (PDict members) \<Rightarrow>
              (validate_analysis (map_of (rev members)))
                (''processing_time_ms'' \<mapsto> PInt processing_time)
          | Some _ \<Rightarrow> unavailable_analysis processing_time))"

subsection \<open>Ticket processing (\<^verbatim>\<open>TicketService.process_ticket\<close>)\<close>

text \<open>
  The collaborators and the environment of one call: the two library parsers, the query
  of the vector index, its \<^verbatim>\<open>add_resolved_ticket\<close> (the recorder, which returns the id of
  the stored entry), the solution generator \<^verbatim>\<open>self.ai_service.analyze_ticket\<close>, the
  ticket id minted from date and UUID, the current time as an ISO string, and the
  measured duration.
\<close>

record 'd world =
  datetime_fromisoformat :: "string \<Rightarrow> 'd option"
  float_of_str :: "string \<Rightarrow> real option"
  index_query :: "string \<Rightarrow> nat \<Rightarrow> exn + query_results"
  index_add_resolved_ticket :: "TicketMetadata \<Rightarrow> string \<Rightarrow> string \<Rightarrow> exn + string"
  ai_analyze_ticket :: "string \<Rightarrow> string \<Rightarrow> string \<Rightarrow> exn + pydict"
  fresh_ticket_id :: string
  now_isoformat :: string
  elapsed_ms :: int

text \<open>The calls made to the collaborators that act: the generator and the store.\<close>

datatype effect =
    AnalyzeTicket string string string
  | AddResolvedTicket TicketMetadata string string

text \<open>
  \<^verbatim>\<open>_find_similar_tickets\<close>: the search with limit 5 and floor 0.3. The search itself
  returns the empty list on every exception, so the \<^verbatim>\<open>except\<close> clause here has nothing
  to catch.
\<close>

definition find_similar_tickets :: "'d world \<Rightarrow> string \<Rightarrow> 'd SimilarTicket list" where
  "find_similar_tickets w issue =
    search_similar (datetime_fromisoformat w) (index_query w) issue 5 (round_double (3 / 10))"

text \<open>Step 2 (lines 59 to 81): the value of \<^verbatim>\<open>use_database_solution\<close> after the gate.\<close>

definition use_database_solution :: "'d SimilarTicket list \<Rightarrow> string \<Rightarrow> bool" where
  "use_database_solution tickets issue =
    (case tickets of
       [] \<Rightarrow> False
     | best_match # _ \<Rightarrow>
         if similarity_score best_match \<ge> 9 / 10 then True
         else if similarity_score best_match \<ge> 8 / 10
                 \<and> check_keyword_similarity issue (description best_match) then True
         else False)"

text \<open>
  \<^verbatim>\<open>_store_new_solution\<close>: the call to the recorder is made when the metadata could be
  built; every exception, that of the recorder included, is logged and dropped, and the
  id that the recorder returns is not used.
\<close>

definition store_new_solution :: "'d world \<Rightarrow> TicketRequest \<Rightarrow> pydict \<Rightarrow> effect list" where
  "store_new_solution w ticket_request ai_analysis =
    (case (ai_analysis ''issue_type'', ai_analysis ''urgency'', ai_analysis ''solution'') of
       (Some it, Some ur, Some sol) \<Rightarrow>
         (case (str_field it, str_field ur, str_field sol) of
            (Inr it', Inr ur', Inr sol') \<Rightarrow>
              (let ticket_metadata =
                     \<lparr> TicketMetadata.ticket_id = fresh_ticket_id w,
                       TicketMetadata.user_name = name ticket_request,
                       TicketMetadata.department =
                         Department_value (TicketRequest.department ticket_request),
                       TicketMetadata.issue_type = it',
                       TicketMetadata.urgency = ur',
                       TicketMetadata.resolution = sol',
                       TicketMetadata.resolved_date = now_isoformat w,
                       resolver = ''AI Assistant'' \<rparr>;
                   issue = TicketRequest.issue_description ticket_request
               in case index_add_resolved_ticket w ticket_metadata issue sol' of
                    Inl e \<Rightarrow> [AddResolvedTicket ticket_metadata issue sol']
                  | Inr stored_id \<Rightarrow> [AddResolvedTicket ticket_metadata issue sol'])
          | _ \<Rightarrow> [])
     | _ \<Rightarrow> [])"

text \<open>
  \<^verbatim>\<open>_get_escalation_contact\<close> on the value under \<^verbatim>\<open>"issue_type"\<close>, which need not be a
  string: any other hashable value is no key of the table, and an unhashable one raises a
  TypeError that the function catches; both give the global default.
\<close>

definition escalation_contact_for :: "pyval \<Rightarrow> string \<Rightarrow> string" where
  "escalation_contact_for v dept =
    (case v of PStr s \<Rightarrow> get_escalation_contact s dept | _ \<Rightarrow> ''support@company.com'')"

text \<open>
  Steps 3 to 5 (lines 104 to 128): the contact and the response, built from
  \<^verbatim>\<open>ai_analysis\<close>. A subscript of a missing key raises KeyError, the enum calls ValueError,
  the model validation ValidationError, in the order in which the source evaluates them.
\<close>

definition build_response ::
  "'d world \<Rightarrow> TicketRequest \<Rightarrow> 'd SimilarTicket list \<Rightarrow> string \<Rightarrow> pydict
    \<Rightarrow> exn + 'd TicketResponse" where
  "build_response w ticket_request tickets source ai_analysis =
    (case ai_analysis ''issue_type'' of None \<Rightarrow> Inl KeyError | Some it \<Rightarrow>
     let contact = escalation_contact_for it
                     (Department_value (TicketRequest.department ticket_request)) in
     (case IssueType_call it of Inl e \<Rightarrow> Inl e | Inr it' \<Rightarrow>
     (case ai_analysis ''urgency'' of None \<Rightarrow> Inl KeyError | Some ur \<Rightarrow>
     (case UrgencyLevel_call ur of Inl e \<Rightarrow> Inl e | Inr ur' \<Rightarrow>
     (case ai_analysis ''solution'' of None \<Rightarrow> Inl KeyError | Some sol \<Rightarrow>
     (case ai_analysis ''confidence_score'' of None \<Rightarrow> Inl KeyError | Some conf \<Rightarrow>
     (case str_field sol of Inl e \<Rightarrow> Inl e | Inr sol' \<Rightarrow>
     (case float_field (float_of_str w) conf of Inl e \<Rightarrow> Inl e | Inr conf' \<Rightarrow>
     (case optional_str_field (ai_analysis ''source_ticket_id'') of Inl e \<Rightarrow> Inl e | Inr sid \<Rightarrow>
       Inr \<lparr> ticket_id = fresh_ticket_id w,
             user_name = name ticket_request,
             department = TicketRequest.department ticket_request,
             issue_description = TicketRequest.issue_description ticket_request,
             issue_type = it',
             urgency = ur',
             ai_generated_solution = sol',
             similar_tickets = take 3 tickets,
             escalation_contact = Some contact,
             processing_time_ms = elapsed_ms w,
             confidence_score = conf',
             response_source = source,
             source_ticket_id = sid \<rparr>)))))))))"

text \<open>
  The dictionary of the reuse branch (lines 94 to 102). Its entries \<^verbatim>\<open>reasoning\<close> and
  \<^verbatim>\<open>processing_time_ms\<close> are never read again and are left out.
\<close>

definition database_analysis :: "'d SimilarTicket \<Rightarrow> pydict" where
  "database_analysis best_match =
    [''issue_type'' \<mapsto> PStr (IssueType_value (SimilarTicket.issue_type best_match)),
     ''urgency'' \<mapsto> PStr (UrgencyLevel_value (SimilarTicket.urgency best_match)),
     ''solution'' \<mapsto> PStr (SimilarTicket.resolution best_match),
     ''confidence_score'' \<mapsto> PFloat (similarity_score best_match),
     ''source_ticket_id'' \<mapsto> PStr (id' best_match)]"

text \<open>
  The body of the \<^verbatim>\<open>try\<close> block: the response or the exception that leaves the block,
  and the calls made.
\<close>

definition process_ticket_try ::
  "'d world \<Rightarrow> TicketRequest \<Rightarrow> (exn + 'd TicketResponse) \<times> effect list" where
  "process_ticket_try w ticket_request =
    (let issue = TicketRequest.issue_description ticket_request;
         tickets = find_similar_tickets w issue
     in if use_database_solution tickets issue
        then (case tickets of
                [] \<Rightarrow> (Inl AttributeError, [])
              | best_match # _ \<Rightarrow>
                  (build_response w ticket_request tickets ''database''
                     (database_analysis best_match), []))
        else (let call = AnalyzeTicket (name ticket_request)
                           (Department_value (TicketRequest.department ticket_request)) issue
              in case ai_analyze_ticket w (name ticket_request)
                        (Department_value (TicketRequest.department ticket_request)) issue of
                   Inl e \<Rightarrow> (Inl e, [call])
                 | Inr ai_analysis \<Rightarrow>
                     (build_response w ticket_request tickets ''ai'' ai_analysis,
                      call # store_new_solution w ticket_request ai_analysis)))"

text \<open>The response of the \<^verbatim>\<open>except\<close> clause (lines 133 to 150).\<close>

definition fallback_response :: "'d world \<Rightarrow> TicketRequest \<Rightarrow> 'd TicketResponse" where
  "fallback_response w ticket_request =
    \<lparr> ticket_id = fresh_ticket_id w,
      user_name = name ticket_request,
      department = TicketRequest.department ticket_request,
      issue_description = TicketRequest.issue_description ticket_request,
      issue_type = OTHER,
      urgency = MEDIUM,
      ai_generated_solution =
        ''We're experiencing technical difficulties. Please contact IT support directly for immediate assistance.'',
      similar_tickets = [],
      escalation_contact = Some ''it-support@company.com'',
      processing_time_ms = elapsed_ms w,
      confidence_score = 1 / 10,
      response_source = ''fallback'',
      source_ticket_id = None \<rparr>"

definition process_ticket ::
  "'d world \<Rightarrow> TicketRequest \<Rightarrow> 'd TicketResponse \<times> effect list" where
  "process_ticket w ticket_request =
    (case process_ticket_try w ticket_request of
       (Inr response, effects) \<Rightarrow> (response, effects)
     | (Inl e, effects) \<Rightarrow> (fallback_response w ticket_request, effects))"

text \<open>The decision rule as the specification words it (section 4.4).\<close>

datatype source = reuse | regenerate

definition decision_rule :: "'d SimilarTicket list \<Rightarrow> string \<Rightarrow> source" where
  "decision_rule candidates queryText =
    (if candidates = [] then regenerate
     else if similarity_score (hd candidates) \<ge> 9 / 10 then reuse
     else if similarity_score (hd candidates) \<ge> 8 / 10
             \<and> sufficientOverlap (extract_keywords queryText)
                  (extract_keywords (description (hd candidates))) then reuse
     else regenerate)"

subsection \<open>Concrete inputs\<close>

text \<open>
  A stored ticket as the index returns it, a generated analysis, and a world built from
  the outcome of the index query and of the generator; they serve as test inputs below.
  A distance is given by a decimal and is the double nearest to it, as a float literal
  is.
\<close>

definition demo_metadata :: pydict where
  "demo_metadata =
    [''ticket_id'' \<mapsto> PStr ''TKT-2024-003'',
     ''issue_type'' \<mapsto> PStr ''software'',
     ''urgency'' \<mapsto> PStr ''medium'',
     ''resolution'' \<mapsto> PStr ''Reinstall the VPN client.'',
     ''resolved_date'' \<mapsto> PStr ''2024-12-03'']"

definition demo_analysis :: pydict where
  "demo_analysis =
    [''issue_type'' \<mapsto> PStr ''network'',
     ''urgency'' \<mapsto> PStr ''high'',
     ''solution'' \<mapsto> PStr ''Restart the router.'',
     ''confidence_score'' \<mapsto> PFloat (7 / 10)]"

definition demo_world :: "(exn + query_results) \<Rightarrow> (exn + pydict) \<Rightarrow> string world" where
  "demo_world found generated =
    \<lparr> datetime_fromisoformat = Some,
      float_of_str = (\<lambda>s. None),
      index_query = (\<lambda>q n. found),
      index_add_resolved_ticket = (\<lambda>m d r. Inr ''ticket_0a1b2c3d''),
      ai_analyze_ticket = (\<lambda>u d i. generated),
      fresh_ticket_id = ''TKT-20250101-0A1B2C'',
      now_isoformat = ''2025-01-01T09:00:00'',
      elapsed_ms = 12 \<rparr>"

definition one_hit :: "string \<Rightarrow> real \<Rightarrow> exn + query_results" where
  "one_hit doc distance =
    Inr \<lparr> documents = [[doc]], metadatas = [[demo_metadata]],
          distances = [[round_double distance]] \<rparr>"

definition demo_request :: "string \<Rightarrow> TicketRequest" where
  "demo_request issue =
    \<lparr> name = ''Ada'', TicketRequest.department = HR,
      TicketRequest.issue_description = issue \<rparr>"




text \<open>
  A reply of the language model that carries a member \<open>source_ticket_id\<close> beside the
  requested ones, and the generator of \<^verbatim>\<open>ai_service_new.py\<close> running on it; an analysis
  with an unknown issue type and urgency and a given confidence; an analysis that
  reports no confidence.
\<close>

definition leaky_reply :: pyval where
  "leaky_reply =
    PDict [(''issue_type'', PStr ''network''),
           (''urgency'', PStr ''high''),
           (''solution'', PStr ''Restart the router.''),
           (''confidence_score'', PFloat (7 / 10)),
           (''reasoning'', PStr ''The connection drops under load.''),
           (''estimated_resolution_time'', PStr ''15 minutes''),
           (''required_skills'', PStr ''beginner''),
           (''escalation_criteria'', PStr ''If the issue persists''),
           (''source_ticket_id'', PStr ''TKT-2024-003'')]"

definition leaky_generator :: "string \<Rightarrow> string \<Rightarrow> string \<Rightarrow> pydict" where
  "leaky_generator =
    analyze_ticket (\<lambda>u d i. Inr ''(the reply of the model)'') (\<lambda>s. Some leaky_reply) 40"

definition scored_analysis :: "pyval \<Rightarrow> pydict" where
  "scored_analysis c =
    [''issue_type'' \<mapsto> PStr ''printer'',
     ''urgency'' \<mapsto> PStr ''urgent'',
     ''solution'' \<mapsto> PStr ''Restart the router.'',
     ''confidence_score'' \<mapsto> c]"

definition unscored_analysis :: pydict where
  "unscored_analysis =
    [''issue_type'' \<mapsto> PStr ''network'',
     ''urgency'' \<mapsto> PStr ''high'',
     ''solution'' \<mapsto> PStr ''Restart the router.'']"

section \<open>Properties\<close>

subsection \<open>Escalation routing\<close>

text \<open>
  Claim C8. For every issue-type string and department string the escalation lookup
  produces a contact: the entry of the table for the issue type and the department when
  there is one, else the entry of the issue type under \<open>default\<close>, else the global
  default. The pair (hardware, it) gives the hardware contact, (hardware, hr) the
  default of the issue type, and an issue type that is no key of the table the global
  default \<open>support@company.com\<close>. The contact is never the empty string.
\<close>

theorem escalation_lookup_total:
  "get_escalation_contact t d =
     (case map_of escalation_contacts t of
        None \<Rightarrow> ''support@company.com''
      | Some row \<Rightarrow>
          (case map_of row d of
             Some c \<Rightarrow> c
           | None \<Rightarrow>
               (case map_of row ''default'' of
                  Some c \<Rightarrow> c
                | None \<Rightarrow> ''support@company.com'')))
   \<and> get_escalation_contact t d \<noteq> []
   \<and> get_escalation_contact ''hardware'' ''it'' = ''hardware-support@company.com''
   \<and> get_escalation_contact ''hardware'' ''hr'' = ''it-support@company.com''
   \<and> (t \<notin> fst ` set escalation_contacts
        \<longrightarrow> get_escalation_contact t d = ''support@company.com'')"
proof -
  have lookup: "get_escalation_contact t d =
     (case map_of escalation_contacts t of
        None \<Rightarrow> ''support@company.com''
      | Some row \<Rightarrow>
          (case map_of row d of
             Some c \<Rightarrow> c
           | None \<Rightarrow>
               (case map_of row ''default'' of
                  Some c \<Rightarrow> c
                | None \<Rightarrow> ''support@company.com'')))"
    by (simp add: get_escalation_contact_def dict_get_def split: option.splits)
  have nonempty: "get_escalation_contact t d \<noteq> []"
    by (auto simp add: get_escalation_contact_def dict_get_def escalation_contacts_def Let_def
        split: option.splits if_splits)
  have hw_it: "get_escalation_contact ''hardware'' ''it'' = ''hardware-support@company.com''"
    by (simp add: get_escalation_contact_def dict_get_def escalation_contacts_def)
  have hw_hr: "get_escalation_contact ''hardware'' ''hr'' = ''it-support@company.com''"
    by (simp add: get_escalation_contact_def dict_get_def escalation_contacts_def)
  have unknown: "t \<notin> fst ` set escalation_contacts
      \<longrightarrow> get_escalation_contact t d = ''support@company.com''"
    by (simp add: get_escalation_contact_def dict_get_def escalation_contacts_def)
  from lookup nonempty hw_it hw_hr unknown show ?thesis by blast
qed

theorem escalation_lookup_total_witness:
  "''unknown-type'' \<notin> fst ` set escalation_contacts
   \<and> get_escalation_contact ''unknown-type'' ''hr'' = ''support@company.com''"
proof -
  have h: "''unknown-type'' \<notin> fst ` set escalation_contacts"
    by (simp add: escalation_contacts_def)
  with escalation_lookup_total [of "''unknown-type''" "''hr''"] show ?thesis by blast
qed

subsection \<open>Keyword overlap\<close>

text \<open>
  Claim C9. The Jaccard similarity that the overlap check computes is 1 for every
  non-empty keyword set taken with itself, and 0 for the empty set taken with itself; it
  is the ratio of section 4.2 of the specification.
\<close>

theorem jaccard_self_and_empty:
  "(A \<noteq> {||} \<longrightarrow> keyword_similarity A A = 1)
   \<and> keyword_similarity {||} {||} = 0
   \<and> keyword_similarity A B = jaccard A B"
  by (simp add: keyword_similarity_def jaccard_def Let_def fcard_0_eq)

theorem jaccard_self_and_empty_witness:
  "{|''vpn'', ''crash''|} \<noteq> {||}
   \<and> keyword_similarity {|''vpn'', ''crash''|} {|''vpn'', ''crash''|} = 1"
proof -
  have h: "{|''vpn'', ''crash''|} \<noteq> {||}" by simp
  with jaccard_self_and_empty [of "{|''vpn'', ''crash''|}"] show ?thesis by blast
qed

text \<open>
  Claim C3. For every pair of keyword sets the overlap check holds if and only if the
  Jaccard ratio is at least 0.3 and the intersection has at least two elements; it is
  false whenever the intersection has fewer than two elements, whatever the ratio. The
  check on two texts is this predicate on their keyword sets.
\<close>

theorem overlap_iff_ratio_and_count:
  "(keyword_overlap A B \<longleftrightarrow> jaccard A B \<ge> 3 / 10 \<and> fcard (A |\<inter>| B) \<ge> 2)
   \<and> keyword_overlap A B = sufficientOverlap A B
   \<and> (fcard (A |\<inter>| B) < 2 \<longrightarrow> \<not> keyword_overlap A B)
   \<and> check_keyword_similarity query reference =
       sufficientOverlap (extract_keywords query) (extract_keywords reference)"
proof -
  have eq: "keyword_overlap X Y \<longleftrightarrow> jaccard X Y \<ge> 3 / 10 \<and> fcard (X |\<inter>| Y) \<ge> 2" for X Y
    unfolding keyword_overlap_def keyword_similarity_def jaccard_def
    by (auto simp: Let_def fcard_fempty)
  then show ?thesis
    by (auto simp: sufficientOverlap_def check_keyword_similarity_def)
qed

theorem overlap_iff_ratio_and_count_witness:
  "fcard ({|''vpn''|} |\<inter>| {|''vpn''|}) < 2
   \<and> jaccard {|''vpn''|} {|''vpn''|} = 1
   \<and> \<not> keyword_overlap {|''vpn''|} {|''vpn''|}"
proof -
  have h: "fcard ({|''vpn''|} |\<inter>| {|''vpn''|}) < 2"
    by (simp add: fcard_finsert_if fcard_fempty)
  have j: "jaccard {|''vpn''|} {|''vpn''|} = 1"
    by (simp add: jaccard_def fcard_finsert_if fcard_fempty)
  from h j overlap_iff_ratio_and_count [of "{|''vpn''|}" "{|''vpn''|}"] show ?thesis by blast
qed

subsection \<open>Double rounding\<close>









subsection \<open>Similarity search\<close>

lemma sort_by_score_empty: "sort_by_score [] = []"
  by (simp add: sort_by_score_def)

lemma search_similar_hits:
  "search_similar f q query limit ms = sort_by_score (scan_hits f ms 0 (hits_of (q query limit)))"
  by (simp add: search_similar_def hits_of_def sort_by_score_empty
      split: sum.splits list.splits)


lemma make_similar_ticket_fields:
  "make_similar_ticket f i doc m s = Some t \<Longrightarrow>
     similarity_score t = py_round3 s \<and> description t = doc"
  unfolding make_similar_ticket_def
  by (auto split: sum.splits pyval.splits option.splits)

lemma scan_hits_origin:
  "t \<in> set (scan_hits f ms i hits) \<Longrightarrow>
     \<exists>(doc, m, d) \<in> set hits. ms \<le> similarity d
        \<and> similarity_score t = py_round3 (similarity d) \<and> description t = doc"
proof (induction hits arbitrary: i)
  case Nil
  then show ?case by simp
next
  case (Cons h hits)
  obtain doc m d where h: "h = (doc, m, d)" by (cases h)
  show ?case
  proof (cases "ms \<le> similarity d \<and> make_similar_ticket f i doc m (similarity d) = Some t")
    case True
    then show ?thesis using h make_similar_ticket_fields by fastforce
  next
    case False
    then have "t \<in> set (scan_hits f ms (Suc i) hits)"
      using Cons.prems h by (auto simp: Let_def split: option.splits if_splits)
    from Cons.IH[OF this] show ?thesis by auto
  qed
qed


lemma mset_sort_by_score: "mset (sort_by_score ts) = mset ts"
  by (simp add: sort_by_score_def)

lemma set_search_similar:
  "set (search_similar f q query limit ms) = set (scan_hits f ms 0 (hits_of (q query limit)))"
  by (metis search_similar_hits mset_sort_by_score set_mset_mset)








subsection \<open>Ticket processing: the reuse branch\<close>

lemma IssueType_call_value: "IssueType_call (PStr (IssueType_value x)) = Inr x"
  by (cases x) (simp_all add: IssueType_call_def)

lemma UrgencyLevel_call_value: "UrgencyLevel_call (PStr (UrgencyLevel_value x)) = Inr x"
  by (cases x) (simp_all add: UrgencyLevel_call_def)

lemma build_response_source:
  "build_response w req ts src a = Inr r \<Longrightarrow> response_source r = src"
  unfolding build_response_def
  by (auto simp: Let_def split: option.splits sum.splits)

lemma build_response_database:
  "build_response w req ts src (database_analysis bm) =
     Inr \<lparr> ticket_id = fresh_ticket_id w,
           user_name = name req,
           department = TicketRequest.department req,
           issue_description = TicketRequest.issue_description req,
           issue_type = SimilarTicket.issue_type bm,
           urgency = SimilarTicket.urgency bm,
           ai_generated_solution = SimilarTicket.resolution bm,
           similar_tickets = take 3 ts,
           escalation_contact =
             Some (get_escalation_contact (IssueType_value (SimilarTicket.issue_type bm))
                     (Department_value (TicketRequest.department req))),
           processing_time_ms = elapsed_ms w,
           confidence_score = similarity_score bm,
           response_source = src,
           source_ticket_id = Some (id' bm) \<rparr>"
  unfolding build_response_def database_analysis_def
  by (simp add: Let_def IssueType_call_value UrgencyLevel_call_value str_field_def float_field_def
      optional_str_field_def escalation_contact_for_def)

lemma search_one_hit:
  assumes "f ''2024-12-03'' = Some date"
    and "ms \<le> similarity (round_double distance)"
  shows "search_similar f (\<lambda>q n. one_hit doc distance) query limit ms =
    [\<lparr> id' = ''TKT-2024-003'', description = doc,
        SimilarTicket.resolution = ''Reinstall the VPN client.'',
        SimilarTicket.issue_type = SOFTWARE, SimilarTicket.urgency = MEDIUM,
        similarity_score = py_round3 (similarity (round_double distance)),
        SimilarTicket.resolved_date = date \<rparr>]"
  using assms
  by (simp add: search_similar_def one_hit_def demo_metadata_def
     make_similar_ticket_def meta_get_def str_field_def IssueType_call_def UrgencyLevel_call_def
     sort_by_score_def Let_def)

lemma find_one_hit:
  assumes "index_query w issue 5 = one_hit doc distance"
    and "datetime_fromisoformat w ''2024-12-03'' = Some date"
    and "round_double (3 / 10) \<le> similarity (round_double distance)"
  shows "find_similar_tickets w issue =
    [\<lparr> id' = ''TKT-2024-003'', description = doc,
        SimilarTicket.resolution = ''Reinstall the VPN client.'',
        SimilarTicket.issue_type = SOFTWARE, SimilarTicket.urgency = MEDIUM,
        similarity_score = py_round3 (similarity (round_double distance)),
        SimilarTicket.resolved_date = date \<rparr>]"
proof -
  have "find_similar_tickets w issue =
      search_similar (datetime_fromisoformat w) (\<lambda>q n. one_hit doc distance) issue 5
        (round_double (3 / 10))"
    using assms(1) by (simp add: find_similar_tickets_def search_similar_def)
  then show ?thesis
    using search_one_hit [where f = "datetime_fromisoformat w" and date = date
        and ms = "round_double (3 / 10)" and distance = distance and doc = doc
        and query = issue and limit = 5] assms(2,3)
    by simp
qed

lemma round3_thousandth: "\<exists>k::int. py_round3 x = of_int k / 1000"
  by (auto simp: py_round3_def)

lemma near_floor_facts:
  "similarity (round_double (14008 / 10000)) < round_double (3 / 10)
   \<and> py_round3 (similarity (round_double (14008 / 10000))) = 3 / 10"
  by code_simp

lemma below_floor_dropped:
  "search_similar f (\<lambda>q n. one_hit doc (14008 / 10000)) query limit (round_double (3 / 10)) = []"
proof -
  have "\<not> round_double (3 / 10) \<le> similarity (round_double (14008 / 10000))"
    using near_floor_facts by simp
  then show ?thesis
    unfolding search_similar_def one_hit_def
    by (simp add: sort_by_score_def del: One_nat_def)
qed

lemma near_gate_facts:
  "max 0 (1 - round_double (2008 / 10000) / 2) < 9 / 10
   \<and> similarity (round_double (2008 / 10000)) < 9 / 10
   \<and> round_double (3 / 10) \<le> similarity (round_double (2008 / 10000))
   \<and> py_round3 (similarity (round_double (2008 / 10000))) = 9 / 10"
  by code_simp

lemma reuse_at_2008:
  assumes "index_query w (TicketRequest.issue_description req) 5 = one_hit doc (2008 / 10000)"
    and "datetime_fromisoformat w ''2024-12-03'' = Some date"
  shows "response_source (fst (process_ticket w req)) = ''database''
     \<and> confidence_score (fst (process_ticket w req)) = 9 / 10
     \<and> snd (process_ticket w req) = []"
proof -
  have above: "round_double (3 / 10) \<le> similarity (round_double (2008 / 10000))"
    using near_gate_facts by blast
  have stored: "py_round3 (similarity (round_double (2008 / 10000))) = 9 / 10"
    using near_gate_facts by blast
  have "find_similar_tickets w (TicketRequest.issue_description req) =
    [\<lparr> id' = ''TKT-2024-003'', description = doc,
        SimilarTicket.resolution = ''Reinstall the VPN client.'',
        SimilarTicket.issue_type = SOFTWARE, SimilarTicket.urgency = MEDIUM,
        similarity_score = 9 / 10,
        SimilarTicket.resolved_date = date \<rparr>]"
    using find_one_hit [OF assms above] unfolding stored .
  then show ?thesis
    by (simp add: process_ticket_def process_ticket_try_def use_database_solution_def
        build_response_database Let_def)
qed

text \<open>
  The rounding of the double arithmetic shows in the stored score: at distance 0.003
  the computed similarity is stored as 0.999 where the exact one would give 0.998, and
  at distance 0.20099999999999998 the stored score is 0.899.
\<close>

lemma double_rounding_at_boundaries:
  "py_round3 (similarity (round_double (3 / 1000))) = 999 / 1000
   \<and> py_round3 (max 0 (1 - round_double (3 / 1000) / 2)) = 998 / 1000
   \<and> py_round3 (similarity (round_double (20099999999999998 / 100000000000000000)))
       = 899 / 1000"
  by code_simp

text \<open>
  Claim C10. Every candidate that the search returns carries the similarity of its hit
  rounded to three decimals, a multiple of one thousandth, while the floor test uses the
  unrounded similarity: the hit at distance 1.4008 has a similarity below the floor 0.3
  that rounds to 0.3, and it is dropped. The gate compares the rounded score with its
  thresholds: at distance 0.2008 the exact similarity \<open>max(0, 1 - d/2)\<close> and the
  computed one are strictly below 0.9, the stored score is 0.9, and \<open>process_ticket\<close>
  reuses the candidate with no keyword check, whatever the text of the stored ticket:
  the response has source \<open>database\<close> and confidence 0.9, and the generator is not
  called. The similarities are those that the source computes in double precision.
\<close>

theorem stored_score_rounded:
  "(\<forall>t \<in> set (search_similar f q query limit ms).
      \<exists>(doc, m, dist) \<in> set (hits_of (q query limit)).
        ms \<le> similarity dist \<and> similarity_score t = py_round3 (similarity dist))
   \<and> (\<exists>k::int. py_round3 x = of_int k / 1000)
   \<and> similarity (round_double (14008 / 10000)) < round_double (3 / 10)
   \<and> py_round3 (similarity (round_double (14008 / 10000))) = 3 / 10
   \<and> search_similar f (\<lambda>q n. one_hit doc (14008 / 10000)) query limit (round_double (3 / 10))
       = []
   \<and> max 0 (1 - round_double (2008 / 10000) / 2) < 9 / 10
   \<and> similarity (round_double (2008 / 10000)) < 9 / 10
   \<and> py_round3 (similarity (round_double (2008 / 10000))) = 9 / 10
   \<and> (index_query w (TicketRequest.issue_description req) 5 = one_hit doc (2008 / 10000)
        \<and> datetime_fromisoformat w ''2024-12-03'' = Some date
       \<longrightarrow> response_source (fst (process_ticket w req)) = ''database''
           \<and> confidence_score (fst (process_ticket w req)) = 9 / 10
           \<and> snd (process_ticket w req) = [])"
proof -
  have origin: "\<forall>t \<in> set (search_similar f q query limit ms).
      \<exists>(doc, m, dist) \<in> set (hits_of (q query limit)).
        ms \<le> similarity dist \<and> similarity_score t = py_round3 (similarity dist)"
  proof
    fix t assume "t \<in> set (search_similar f q query limit ms)"
    then have "t \<in> set (scan_hits f ms 0 (hits_of (q query limit)))"
      by (simp add: set_search_similar)
    from scan_hits_origin[OF this]
    show "\<exists>(doc, m, dist) \<in> set (hits_of (q query limit)).
        ms \<le> similarity dist \<and> similarity_score t = py_round3 (similarity dist)"
      by fast
  qed
  have thousandth: "\<exists>k::int. py_round3 x = of_int k / 1000"
    by (rule round3_thousandth)
  note low = near_floor_facts [THEN conjunct1]
  note low3 = near_floor_facts [THEN conjunct2]
  have dropped: "search_similar f (\<lambda>q n. one_hit doc (14008 / 10000)) query limit
      (round_double (3 / 10)) = []"
    by (rule below_floor_dropped)
  note exact = near_gate_facts [THEN conjunct1]
  note band = near_gate_facts [THEN conjunct2, THEN conjunct1]
  note up = near_gate_facts [THEN conjunct2, THEN conjunct2, THEN conjunct2]
  have gate: "index_query w (TicketRequest.issue_description req) 5 = one_hit doc (2008 / 10000)
        \<and> datetime_fromisoformat w ''2024-12-03'' = Some date
       \<longrightarrow> response_source (fst (process_ticket w req)) = ''database''
           \<and> confidence_score (fst (process_ticket w req)) = 9 / 10
           \<and> snd (process_ticket w req) = []"
  proof (intro impI, elim conjE)
    assume a: "index_query w (TicketRequest.issue_description req) 5 = one_hit doc (2008 / 10000)"
      and b: "datetime_fromisoformat w ''2024-12-03'' = Some date"
    from reuse_at_2008 [OF a b]
    show "response_source (fst (process_ticket w req)) = ''database''
           \<and> confidence_score (fst (process_ticket w req)) = 9 / 10
           \<and> snd (process_ticket w req) = []" .
  qed
  show ?thesis
    by (intro conjI) (fact origin thousandth low low3 dropped exact band up gate)+
qed

lemma no_keywords_in_common:
  "\<not> check_keyword_similarity ''vpn keeps crashing'' ''printer jammed''"
  by code_simp

theorem stored_score_rounded_witness:
  "\<not> check_keyword_similarity ''vpn keeps crashing'' ''printer jammed''
   \<and> response_source
        (fst (process_ticket
               (demo_world (one_hit ''printer jammed'' (2008 / 10000)) (Inr demo_analysis))
               (demo_request ''vpn keeps crashing''))) = ''database''"
proof -
  have a: "index_query (demo_world (one_hit ''printer jammed'' (2008 / 10000)) (Inr demo_analysis))
             (TicketRequest.issue_description (demo_request ''vpn keeps crashing'')) 5
           = one_hit ''printer jammed'' (2008 / 10000)"
    by (simp add: demo_world_def)
  have b: "datetime_fromisoformat
             (demo_world (one_hit ''printer jammed'' (2008 / 10000)) (Inr demo_analysis))
             ''2024-12-03'' = Some ''2024-12-03''"
    by (simp add: demo_world_def)
  from a b no_keywords_in_common
    stored_score_rounded [where w =
        "demo_world (one_hit ''printer jammed'' (2008 / 10000)) (Inr demo_analysis)"
      and req = "demo_request ''vpn keeps crashing''" and doc = "''printer jammed''"
      and date = "''2024-12-03''"]
  show ?thesis by blast
qed

subsection \<open>Ticket processing: the gate\<close>

lemma gate_eq: "use_database_solution c q = (decision_rule c q = reuse)"
  unfolding use_database_solution_def decision_rule_def check_keyword_similarity_def
    keyword_overlap_def sufficientOverlap_def keyword_similarity_def jaccard_def
  by (cases c) (auto simp: Let_def fcard_fempty)

lemma process_ticket_reuse:
  assumes "use_database_solution (find_similar_tickets w (TicketRequest.issue_description req))
             (TicketRequest.issue_description req)"
  shows "response_source (fst (process_ticket w req)) = ''database''
     \<and> snd (process_ticket w req) = []"
proof -
  from assms obtain bm rest
    where ts: "find_similar_tickets w (TicketRequest.issue_description req) = bm # rest"
    by (cases "find_similar_tickets w (TicketRequest.issue_description req)")
      (auto simp: use_database_solution_def)
  with assms show ?thesis
    by (simp add: process_ticket_def process_ticket_try_def Let_def build_response_database)
qed

lemma process_ticket_regenerate:
  assumes "\<not> use_database_solution (find_similar_tickets w (TicketRequest.issue_description req))
             (TicketRequest.issue_description req)"
  shows "AnalyzeTicket (name req) (Department_value (TicketRequest.department req))
           (TicketRequest.issue_description req) \<in> set (snd (process_ticket w req))
     \<and> response_source (fst (process_ticket w req)) =
          (case fst (process_ticket_try w req) of Inr r \<Rightarrow> ''ai'' | Inl e \<Rightarrow> ''fallback'')"
  using assms
  by (auto simp: process_ticket_def process_ticket_try_def Let_def fallback_response_def
      split: sum.splits dest: build_response_source)

text \<open>
  Claim C1. For every candidate list and query text the gate chooses its source by the
  four rules of the specification in their order (\<open>decision_rule\<close>): regenerate for an
  empty list; else reuse when the first candidate scores at least 0.9, with no keyword
  check; else reuse when it scores at least 0.8 and the keyword overlap of the query text
  and the candidate's text is sufficient; otherwise regenerate. The response of
  \<open>process_ticket\<close> has source \<open>database\<close> exactly when the rule says reuse, and then
  the generator is not called; when the rule says regenerate the generator is called and
  the source is \<open>ai\<close>, or \<open>fallback\<close> if an exception leaves the block.
\<close>

theorem gate_follows_decision_rule:
  "(use_database_solution candidates queryText \<longleftrightarrow> decision_rule candidates queryText = reuse)
   \<and> (response_source (fst (process_ticket w req)) = ''database''
        \<longleftrightarrow> decision_rule (find_similar_tickets w (TicketRequest.issue_description req))
              (TicketRequest.issue_description req) = reuse)
   \<and> (decision_rule (find_similar_tickets w (TicketRequest.issue_description req))
          (TicketRequest.issue_description req) = reuse
        \<longrightarrow> snd (process_ticket w req) = [])
   \<and> (decision_rule (find_similar_tickets w (TicketRequest.issue_description req))
          (TicketRequest.issue_description req) = regenerate
        \<longrightarrow> AnalyzeTicket (name req) (Department_value (TicketRequest.department req))
              (TicketRequest.issue_description req) \<in> set (snd (process_ticket w req))
            \<and> response_source (fst (process_ticket w req)) =
                (case fst (process_ticket_try w req) of Inr r \<Rightarrow> ''ai'' | Inl e \<Rightarrow> ''fallback''))"
proof -
  let ?issue = "TicketRequest.issue_description req"
  let ?found = "find_similar_tickets w ?issue"
  have rule: "use_database_solution ?found ?issue \<longleftrightarrow> decision_rule ?found ?issue = reuse"
    by (rule gate_eq)
  have not_rule:
    "\<not> use_database_solution ?found ?issue \<longleftrightarrow> decision_rule ?found ?issue = regenerate"
    using rule by (cases "decision_rule ?found ?issue") auto
  have db: "response_source (fst (process_ticket w req)) = ''database''
      \<longleftrightarrow> decision_rule ?found ?issue = reuse"
  proof (cases "use_database_solution ?found ?issue")
    case True
    with process_ticket_reuse [OF True] rule show ?thesis by simp
  next
    case False
    with process_ticket_regenerate [OF False] rule show ?thesis
      by (auto split: sum.splits)
  qed
  have quiet: "decision_rule ?found ?issue = reuse \<longrightarrow> snd (process_ticket w req) = []"
    using process_ticket_reuse rule by blast
  have regen: "decision_rule ?found ?issue = regenerate
        \<longrightarrow> AnalyzeTicket (name req) (Department_value (TicketRequest.department req)) ?issue
              \<in> set (snd (process_ticket w req))
            \<and> response_source (fst (process_ticket w req)) =
                (case fst (process_ticket_try w req) of Inr r \<Rightarrow> ''ai'' | Inl e \<Rightarrow> ''fallback'')"
    using process_ticket_regenerate not_rule by blast
  from gate_eq [of candidates queryText] db quiet regen show ?thesis by blast
qed

lemma band_reuse:
  "decision_rule
     (find_similar_tickets (demo_world (one_hit ''vpn crashing'' (3 / 10)) (Inr demo_analysis))
        (TicketRequest.issue_description (demo_request ''vpn keeps crashing when opened'')))
     (TicketRequest.issue_description (demo_request ''vpn keeps crashing when opened'')) = reuse"
  by code_simp

lemma band_regenerate:
  "decision_rule
     (find_similar_tickets (demo_world (one_hit ''printer jammed'' (3 / 10)) (Inr demo_analysis))
        (TicketRequest.issue_description (demo_request ''vpn keeps crashing'')))
     (TicketRequest.issue_description (demo_request ''vpn keeps crashing'')) = regenerate"
  by code_simp

theorem gate_follows_decision_rule_witness:
  "decision_rule
     (find_similar_tickets (demo_world (one_hit ''vpn crashing'' (3 / 10)) (Inr demo_analysis))
        (TicketRequest.issue_description (demo_request ''vpn keeps crashing when opened'')))
     (TicketRequest.issue_description (demo_request ''vpn keeps crashing when opened'')) = reuse
   \<and> response_source
        (fst (process_ticket
               (demo_world (one_hit ''vpn crashing'' (3 / 10)) (Inr demo_analysis))
               (demo_request ''vpn keeps crashing when opened''))) = ''database''
   \<and> decision_rule
     (find_similar_tickets (demo_world (one_hit ''printer jammed'' (3 / 10)) (Inr demo_analysis))
        (TicketRequest.issue_description (demo_request ''vpn keeps crashing'')))
     (TicketRequest.issue_description (demo_request ''vpn keeps crashing'')) = regenerate
   \<and> AnalyzeTicket ''Ada'' ''hr'' ''vpn keeps crashing''
        \<in> set (snd (process_ticket
               (demo_world (one_hit ''printer jammed'' (3 / 10)) (Inr demo_analysis))
               (demo_request ''vpn keeps crashing'')))"
proof -
  have who: "name (demo_request ''vpn keeps crashing'') = ''Ada''
      \<and> Department_value (TicketRequest.department (demo_request ''vpn keeps crashing'')) = ''hr''
      \<and> TicketRequest.issue_description (demo_request ''vpn keeps crashing'') = ''vpn keeps crashing''"
    by (simp add: demo_request_def)
  from band_reuse
    gate_follows_decision_rule [where w =
        "demo_world (one_hit ''vpn crashing'' (3 / 10)) (Inr demo_analysis)"
      and req = "demo_request ''vpn keeps crashing when opened''"]
  have first: "response_source
        (fst (process_ticket
               (demo_world (one_hit ''vpn crashing'' (3 / 10)) (Inr demo_analysis))
               (demo_request ''vpn keeps crashing when opened''))) = ''database''"
    by blast
  from band_regenerate
    gate_follows_decision_rule [where w =
        "demo_world (one_hit ''printer jammed'' (3 / 10)) (Inr demo_analysis)"
      and req = "demo_request ''vpn keeps crashing''"]
  have second: "AnalyzeTicket (name (demo_request ''vpn keeps crashing''))
         (Department_value (TicketRequest.department (demo_request ''vpn keeps crashing'')))
         (TicketRequest.issue_description (demo_request ''vpn keeps crashing''))
        \<in> set (snd (process_ticket
               (demo_world (one_hit ''printer jammed'' (3 / 10)) (Inr demo_analysis))
               (demo_request ''vpn keeps crashing'')))"
    by blast
  from band_reuse first band_regenerate second who show ?thesis by simp
qed

subsection \<open>Ticket processing: failures\<close>

lemma search_similar_index_error:
  "collection_query query limit = Inl e \<Longrightarrow>
     search_similar f collection_query query limit ms = []"
  by (simp add: search_similar_def)

lemma process_ticket_try_no_tickets:
  assumes "find_similar_tickets w (TicketRequest.issue_description req) = []"
  shows "process_ticket_try w req =
     (case ai_analyze_ticket w (name req) (Department_value (TicketRequest.department req))
             (TicketRequest.issue_description req) of
        Inl e' \<Rightarrow>
          (Inl e', [AnalyzeTicket (name req) (Department_value (TicketRequest.department req))
                      (TicketRequest.issue_description req)])
      | Inr a \<Rightarrow>
          (build_response w req [] ''ai'' a,
           AnalyzeTicket (name req) (Department_value (TicketRequest.department req))
             (TicketRequest.issue_description req) # store_new_solution w req a))"
  using assms
  by (simp add: process_ticket_try_def use_database_solution_def Let_def split: sum.splits)

text \<open>
  Claim C6. When the query of the vector index raises an exception, the search returns
  the empty candidate list instead of the failure, and so does the similar-ticket
  lookup; the gate then does not reuse, the generator is called, and the body of
  \<open>process_ticket\<close> is the regeneration on an empty candidate list: the response is the
  generated one, of source \<open>ai\<close>, whenever the generator answers and its analysis
  yields a response.
\<close>

theorem index_failure_degrades:
  "(collection_query query limit = Inl e
      \<longrightarrow> search_similar f collection_query query limit ms = [])
   \<and> (index_query w (TicketRequest.issue_description req) 5 = Inl e
      \<longrightarrow> find_similar_tickets w (TicketRequest.issue_description req) = []
        \<and> \<not> use_database_solution (find_similar_tickets w (TicketRequest.issue_description req))
              (TicketRequest.issue_description req)
        \<and> process_ticket_try w req =
            (case ai_analyze_ticket w (name req)
                    (Department_value (TicketRequest.department req))
                    (TicketRequest.issue_description req) of
               Inl e' \<Rightarrow>
                 (Inl e',
                  [AnalyzeTicket (name req) (Department_value (TicketRequest.department req))
                     (TicketRequest.issue_description req)])
             | Inr a \<Rightarrow>
                 (build_response w req [] ''ai'' a,
                  AnalyzeTicket (name req) (Department_value (TicketRequest.department req))
                    (TicketRequest.issue_description req) # store_new_solution w req a))
        \<and> AnalyzeTicket (name req) (Department_value (TicketRequest.department req))
             (TicketRequest.issue_description req) \<in> set (snd (process_ticket w req))
        \<and> (\<forall>a r. ai_analyze_ticket w (name req)
                    (Department_value (TicketRequest.department req))
                    (TicketRequest.issue_description req) = Inr a
                 \<and> build_response w req [] ''ai'' a = Inr r
               \<longrightarrow> fst (process_ticket w req) = r \<and> response_source r = ''ai''))"
proof -
  have search: "collection_query query limit = Inl e
      \<longrightarrow> search_similar f collection_query query limit ms = []"
    by (simp add: search_similar_index_error)
  have pipeline: "find_similar_tickets w (TicketRequest.issue_description req) = []
        \<and> \<not> use_database_solution (find_similar_tickets w (TicketRequest.issue_description req))
              (TicketRequest.issue_description req)
        \<and> process_ticket_try w req =
            (case ai_analyze_ticket w (name req)
                    (Department_value (TicketRequest.department req))
                    (TicketRequest.issue_description req) of
               Inl e' \<Rightarrow>
                 (Inl e',
                  [AnalyzeTicket (name req) (Department_value (TicketRequest.department req))
                     (TicketRequest.issue_description req)])
             | Inr a \<Rightarrow>
                 (build_response w req [] ''ai'' a,
                  AnalyzeTicket (name req) (Department_value (TicketRequest.department req))
                    (TicketRequest.issue_description req) # store_new_solution w req a))
        \<and> AnalyzeTicket (name req) (Department_value (TicketRequest.department req))
             (TicketRequest.issue_description req) \<in> set (snd (process_ticket w req))
        \<and> (\<forall>a r. ai_analyze_ticket w (name req)
                    (Department_value (TicketRequest.department req))
                    (TicketRequest.issue_description req) = Inr a
                 \<and> build_response w req [] ''ai'' a = Inr r
               \<longrightarrow> fst (process_ticket w req) = r \<and> response_source r = ''ai'')"
    if failed: "index_query w (TicketRequest.issue_description req) 5 = Inl e"
  proof -
    have none: "find_similar_tickets w (TicketRequest.issue_description req) = []"
      using failed by (simp add: find_similar_tickets_def search_similar_index_error)
    have gate: "\<not> use_database_solution
        (find_similar_tickets w (TicketRequest.issue_description req))
        (TicketRequest.issue_description req)"
      by (simp add: none use_database_solution_def)
    note body = process_ticket_try_no_tickets [OF none]
    have called: "AnalyzeTicket (name req) (Department_value (TicketRequest.department req))
             (TicketRequest.issue_description req) \<in> set (snd (process_ticket w req))"
      by (simp add: process_ticket_def body split: sum.splits)
    have generated: "\<forall>a r. ai_analyze_ticket w (name req)
                    (Department_value (TicketRequest.department req))
                    (TicketRequest.issue_description req) = Inr a
                 \<and> build_response w req [] ''ai'' a = Inr r
               \<longrightarrow> fst (process_ticket w req) = r \<and> response_source r = ''ai''"
      by (auto simp: process_ticket_def body dest: build_response_source)
    from none gate body called generated show ?thesis by blast
  qed
  from search pipeline show ?thesis by blast
qed

lemma demo_generated:
  "build_response (demo_world (Inl ExternalError) (Inr demo_analysis))
     (demo_request ''vpn keeps crashing'') [] ''ai'' demo_analysis =
   Inr \<lparr> ticket_id = ''TKT-20250101-0A1B2C'',
         user_name = ''Ada'',
         department = HR,
         issue_description = ''vpn keeps crashing'',
         issue_type = NETWORK,
         urgency = HIGH,
         ai_generated_solution = ''Restart the router.'',
         similar_tickets = [],
         escalation_contact = Some ''network-support@company.com'',
         processing_time_ms = 12,
         confidence_score = 7 / 10,
         response_source = ''ai'',
         source_ticket_id = None \<rparr>"
  by (simp add: build_response_def demo_world_def demo_request_def demo_analysis_def
      escalation_contact_for_def get_escalation_contact_def dict_get_def escalation_contacts_def
      IssueType_call_def UrgencyLevel_call_def str_field_def float_field_def
      optional_str_field_def)

theorem index_failure_degrades_witness:
  "index_query (demo_world (Inl ExternalError) (Inr demo_analysis))
       (TicketRequest.issue_description (demo_request ''vpn keeps crashing'')) 5
     = Inl ExternalError
   \<and> response_source
        (fst (process_ticket (demo_world (Inl ExternalError) (Inr demo_analysis))
               (demo_request ''vpn keeps crashing''))) = ''ai''
   \<and> confidence_score
        (fst (process_ticket (demo_world (Inl ExternalError) (Inr demo_analysis))
               (demo_request ''vpn keeps crashing''))) = 7 / 10"
proof -
  let ?w = "demo_world (Inl ExternalError) (Inr demo_analysis)"
  let ?req = "demo_request ''vpn keeps crashing''"
  have failed: "index_query ?w (TicketRequest.issue_description ?req) 5 = Inl ExternalError"
    by (simp add: demo_world_def)
  have answer: "ai_analyze_ticket ?w (name ?req)
      (Department_value (TicketRequest.department ?req))
      (TicketRequest.issue_description ?req) = Inr demo_analysis"
    by (simp add: demo_world_def)
  from failed answer demo_generated
    index_failure_degrades [where w = ?w and req = ?req and e = ExternalError]
  have "fst (process_ticket ?w ?req) =
     \<lparr> ticket_id = ''TKT-20250101-0A1B2C'',
         user_name = ''Ada'',
         department = HR,
         issue_description = ''vpn keeps crashing'',
         issue_type = NETWORK,
         urgency = HIGH,
         ai_generated_solution = ''Restart the router.'',
         similar_tickets = [],
         escalation_contact = Some ''network-support@company.com'',
         processing_time_ms = 12,
         confidence_score = 7 / 10,
         response_source = ''ai'',
         source_ticket_id = None \<rparr>"
    by blast
  with failed show ?thesis by simp
qed













subsection \<open>Validation of the analysis\<close>

lemma fold_ensure_field_other:
  "k \<notin> set fs \<Longrightarrow> fold ensure_field fs m k = m k"
  by (induction fs arbitrary: m) (auto simp: ensure_field_def)

lemma validated_key:
  "k \<notin> set required_fields \<Longrightarrow>
     validate_analysis a k =
       (let analysis1 =
           (if \<not> in_strings (a ''issue_type'') valid_issue_types
            then a(''issue_type'' \<mapsto> PStr ''other'') else a);
         analysis2 =
           (if \<not> in_strings (analysis1 ''urgency'') valid_urgencies
            then analysis1(''urgency'' \<mapsto> PStr ''medium'') else analysis1);
         confidence =
           (case analysis2 ''confidence_score'' of Some v \<Rightarrow> v | None \<Rightarrow> PFloat (1 / 2));
         analysis3 =
           (if \<not> is_number confidence \<or> num_value confidence < 0 \<or> num_value confidence > 1
            then analysis2(''confidence_score'' \<mapsto> PFloat (1 / 2)) else analysis2)
       in analysis3 k)"
  by (simp add: validate_analysis_def Let_def fold_ensure_field_other)

lemma validate_issue_type:
  "validate_analysis a ''issue_type'' =
     (if in_strings (a ''issue_type'') valid_issue_types then a ''issue_type''
      else Some (PStr ''other''))"
proof -
  have "''issue_type'' \<notin> set required_fields" by (simp add: required_fields_def)
  from validated_key [OF this] show ?thesis by (simp add: Let_def)
qed

lemma validate_urgency:
  "validate_analysis a ''urgency'' =
     (if in_strings (a ''urgency'') valid_urgencies then a ''urgency''
      else Some (PStr ''medium''))"
proof -
  have "''urgency'' \<notin> set required_fields" by (simp add: required_fields_def)
  from validated_key [OF this] show ?thesis by (simp add: Let_def)
qed

lemma validate_confidence:
  "validate_analysis a ''confidence_score'' =
     (case a ''confidence_score'' of
        None \<Rightarrow> None
      | Some c \<Rightarrow>
          if is_number c \<and> 0 \<le> num_value c \<and> num_value c \<le> 1 then Some c
          else Some (PFloat (1 / 2)))"
proof -
  have "''confidence_score'' \<notin> set required_fields" by (simp add: required_fields_def)
  from validated_key [OF this] show ?thesis
    by (auto simp: Let_def split: option.splits)
qed

text \<open>
  What validation does with the three checked entries. An issue type that is not one of
  the five known strings becomes \<open>other\<close>, an urgency that is not one of the four known
  strings becomes \<open>medium\<close>, and a known one is kept. A reported confidence that is a
  number within 0 and 1 is kept; one that is a number outside that range, or no number, is
  replaced by 0.5. Hence a confidence in the result is always a number within 0 and 1.
\<close>

lemma validate_analysis_coerces:
  "validate_analysis a ''issue_type'' =
     (if in_strings (a ''issue_type'') valid_issue_types then a ''issue_type''
      else Some (PStr ''other''))
   \<and> validate_analysis a ''urgency'' =
     (if in_strings (a ''urgency'') valid_urgencies then a ''urgency''
      else Some (PStr ''medium''))
   \<and> (a ''confidence_score'' = Some c
        \<longrightarrow> validate_analysis a ''confidence_score'' =
              (if is_number c \<and> 0 \<le> num_value c \<and> num_value c \<le> 1 then Some c
               else Some (PFloat (1 / 2))))
   \<and> (validate_analysis a ''confidence_score'' = Some c'
        \<longrightarrow> is_number c' \<and> 0 \<le> num_value c' \<and> num_value c' \<le> 1)"
proof -
  have kept: "a ''confidence_score'' = Some c
        \<longrightarrow> validate_analysis a ''confidence_score'' =
              (if is_number c \<and> 0 \<le> num_value c \<and> num_value c \<le> 1 then Some c
               else Some (PFloat (1 / 2)))"
    by (simp add: validate_confidence)
  have range: "validate_analysis a ''confidence_score'' = Some c'
        \<longrightarrow> is_number c' \<and> 0 \<le> num_value c' \<and> num_value c' \<le> 1"
    by (auto simp: validate_confidence split: option.splits if_splits)
  from validate_issue_type validate_urgency kept range show ?thesis by blast
qed

lemma validate_analysis_coerces_example:
  "scored_analysis (PFloat (17 / 10)) ''confidence_score'' = Some (PFloat (17 / 10))
   \<and> validate_analysis (scored_analysis (PFloat (17 / 10))) ''confidence_score''
       = Some (PFloat (1 / 2))
   \<and> validate_analysis (scored_analysis (PFloat (17 / 10))) ''issue_type'' = Some (PStr ''other'')
   \<and> validate_analysis (scored_analysis (PFloat (17 / 10))) ''urgency'' = Some (PStr ''medium'')"
proof -
  have given: "scored_analysis (PFloat (17 / 10)) ''confidence_score'' = Some (PFloat (17 / 10))"
    by (simp add: scored_analysis_def)
  have unknown: "\<not> in_strings (scored_analysis (PFloat (17 / 10)) ''issue_type'') valid_issue_types
      \<and> \<not> in_strings (scored_analysis (PFloat (17 / 10)) ''urgency'') valid_urgencies"
    by (simp add: scored_analysis_def in_strings_def valid_issue_types_def valid_urgencies_def)
  from given unknown
    validate_analysis_coerces [of "scored_analysis (PFloat (17 / 10))" "PFloat (17 / 10)"]
  show ?thesis by simp
qed

text \<open>
  The replacement is by 0.5 and not by the nearest bound of the range: the reported
  confidence 1.7 becomes 0.5, while the clamp of 1.7 is 1.
\<close>

lemma confidence_not_clamped:
  "\<not> (\<forall>a c. a ''confidence_score'' = Some (PFloat c)
        \<longrightarrow> validate_analysis a ''confidence_score'' = Some (PFloat (clamp01 c)))"
proof
  assume "\<forall>a c. a ''confidence_score'' = Some (PFloat c)
        \<longrightarrow> validate_analysis a ''confidence_score'' = Some (PFloat (clamp01 c))"
  then have "validate_analysis (scored_analysis (PFloat (17 / 10))) ''confidence_score''
      = Some (PFloat (clamp01 (17 / 10)))"
    by (simp add: scored_analysis_def)
  then show False
    by (simp add: validate_confidence scored_analysis_def clamp01_def)
qed

text \<open>
  Claim C5 says that validation coerces an unknown issue type to \<open>other\<close> and an
  unknown urgency to \<open>medium\<close>, brings an out-of-range confidence into the range, and
  uses 0.5 for an invalid or missing confidence. The last part fails for a missing one:
  the default 0.5 is read for the range test only and is not written back, so the
  validated analysis reports no confidence either, and \<open>process_ticket\<close> then answers
  such an analysis with the fallback response.
\<close>

theorem missing_confidence_stays_missing:
  "unscored_analysis ''confidence_score'' = None
   \<and> validate_analysis unscored_analysis ''confidence_score'' = None
   \<and> response_source
        (fst (process_ticket
               (demo_world (Inl ExternalError) (Inr (validate_analysis unscored_analysis)))
               (demo_request ''vpn keeps crashing''))) = ''fallback''"
proof -
  have a: "unscored_analysis ''confidence_score'' = None"
    by (simp add: unscored_analysis_def)
  then have b: "validate_analysis unscored_analysis ''confidence_score'' = None"
    by (simp add: validate_confidence)
  have c: "validate_analysis unscored_analysis ''issue_type'' = Some (PStr ''network'')"
    by (simp add: validate_issue_type unscored_analysis_def in_strings_def valid_issue_types_def)
  have d: "validate_analysis unscored_analysis ''urgency'' = Some (PStr ''high'')"
    by (simp add: validate_urgency unscored_analysis_def in_strings_def valid_urgencies_def)
  have "fst (process_ticket_try
               (demo_world (Inl ExternalError) (Inr (validate_analysis unscored_analysis)))
               (demo_request ''vpn keeps crashing'')) = Inl KeyError"
    by (auto simp add: process_ticket_try_def demo_world_def find_similar_tickets_def
        search_similar_def use_database_solution_def build_response_def b c d
        IssueType_call_def UrgencyLevel_call_def Let_def split: option.splits)
  then have "response_source
        (fst (process_ticket
               (demo_world (Inl ExternalError) (Inr (validate_analysis unscored_analysis)))
               (demo_request ''vpn keeps crashing''))) = ''fallback''"
    by (cases "process_ticket_try
               (demo_world (Inl ExternalError) (Inr (validate_analysis unscored_analysis)))
               (demo_request ''vpn keeps crashing'')")
      (simp add: process_ticket_def fallback_response_def)
  with a b show ?thesis by simp
qed

theorem missing_confidence_stays_missing_witness:
  "validate_analysis unscored_analysis ''confidence_score'' \<noteq> Some (PFloat (1 / 2))
   \<and> response_source
        (fst (process_ticket
               (demo_world (Inl ExternalError) (Inr (validate_analysis unscored_analysis)))
               (demo_request ''vpn keeps crashing''))) \<noteq> ''ai''"
  using missing_confidence_stays_missing by simp

subsection \<open>Ticket processing: confidence and source ticket\<close>

lemma leaky_generator_result:
  "leaky_generator ''Ada'' ''hr'' ''vpn keeps crashing'' ''issue_type'' = Some (PStr ''network'')
   \<and> leaky_generator ''Ada'' ''hr'' ''vpn keeps crashing'' ''urgency'' = Some (PStr ''high'')
   \<and> leaky_generator ''Ada'' ''hr'' ''vpn keeps crashing'' ''solution''
       = Some (PStr ''Restart the router.'')
   \<and> leaky_generator ''Ada'' ''hr'' ''vpn keeps crashing'' ''confidence_score''
       = Some (PFloat (7 / 10))
   \<and> leaky_generator ''Ada'' ''hr'' ''vpn keeps crashing'' ''source_ticket_id''
       = Some (PStr ''TKT-2024-003'')"
  by code_simp

text \<open>
  Claim C2 says that the source ticket id of a response is set if and only if the source
  is reuse. The response built from a generated analysis takes the id from the
  analysis: with no similar ticket found and a reply of the model that carries a member
  \<open>source_ticket_id\<close>, the response has source \<open>ai\<close> and a source ticket id.
\<close>

theorem generated_response_names_source_ticket:
  "find_similar_tickets
      (demo_world (Inl ExternalError)
         (Inr (leaky_generator ''Ada'' ''hr'' ''vpn keeps crashing'')))
      ''vpn keeps crashing'' = []
   \<and> response_source
        (fst (process_ticket
               (demo_world (Inl ExternalError)
                  (Inr (leaky_generator ''Ada'' ''hr'' ''vpn keeps crashing'')))
               (demo_request ''vpn keeps crashing''))) = ''ai''
   \<and> source_ticket_id
        (fst (process_ticket
               (demo_world (Inl ExternalError)
                  (Inr (leaky_generator ''Ada'' ''hr'' ''vpn keeps crashing'')))
               (demo_request ''vpn keeps crashing''))) = Some ''TKT-2024-003''"
  by code_simp

theorem generated_response_names_source_ticket_witness:
  "response_source
        (fst (process_ticket
               (demo_world (Inl ExternalError)
                  (Inr (leaky_generator ''Ada'' ''hr'' ''vpn keeps crashing'')))
               (demo_request ''vpn keeps crashing''))) \<noteq> ''database''
   \<and> source_ticket_id
        (fst (process_ticket
               (demo_world (Inl ExternalError)
                  (Inr (leaky_generator ''Ada'' ''hr'' ''vpn keeps crashing'')))
               (demo_request ''vpn keeps crashing''))) \<noteq> None"
  using generated_response_names_source_ticket by simp

text \<open>
  What the code guarantees: a response of source \<open>database\<close> carries the similarity
  score and the id of the first candidate; a response of source \<open>ai\<close> carries the
  confidence that the generator reported, and as source ticket id whatever the analysis
  holds under \<open>source_ticket_id\<close>.
\<close>

lemma build_response_fields:
  "build_response w req ts src a = Inr r \<Longrightarrow>
     \<exists>c. a ''confidence_score'' = Some c
       \<and> float_field (float_of_str w) c = Inr (confidence_score r)
       \<and> optional_str_field (a ''source_ticket_id'') = Inr (source_ticket_id r)"
  unfolding build_response_def
  by (auto simp: Let_def split: option.splits sum.splits)

lemma response_confidence_and_source_id:
  "(response_source (fst (process_ticket w req)) = ''database''
      \<longrightarrow> (\<exists>best_match rest.
             find_similar_tickets w (TicketRequest.issue_description req) = best_match # rest
             \<and> confidence_score (fst (process_ticket w req)) = similarity_score best_match
             \<and> source_ticket_id (fst (process_ticket w req)) = Some (id' best_match)))
   \<and> (response_source (fst (process_ticket w req)) = ''ai''
      \<longrightarrow> (\<exists>a c. ai_analyze_ticket w (name req)
                    (Department_value (TicketRequest.department req))
                    (TicketRequest.issue_description req) = Inr a
             \<and> a ''confidence_score'' = Some c
             \<and> float_field (float_of_str w) c = Inr (confidence_score (fst (process_ticket w req)))
             \<and> optional_str_field (a ''source_ticket_id'')
                 = Inr (source_ticket_id (fst (process_ticket w req)))))"
proof (cases "use_database_solution (find_similar_tickets w (TicketRequest.issue_description req))
                (TicketRequest.issue_description req)")
  case True
  then obtain bm rest
    where ts: "find_similar_tickets w (TicketRequest.issue_description req) = bm # rest"
    by (cases "find_similar_tickets w (TicketRequest.issue_description req)")
      (auto simp: use_database_solution_def)
  with True show ?thesis
    by (simp add: process_ticket_def process_ticket_try_def Let_def build_response_database)
next
  case False
  then show ?thesis
    by (auto simp: process_ticket_def process_ticket_try_def Let_def fallback_response_def
        split: sum.splits dest: build_response_fields build_response_source)
qed

end
